theory Spec2Isabelle
  imports Complex_Main
begin

section \<open>Data model\<close>

text \<open>
  The front-end keeps its state in React hooks of the \<open>App\<close> component (the TypeScript
  after the first separator of \<open>src/start_app.cmd\<close>), of \<open>StudyControls\<close> and of
  \<open>ChatPane\<close>; the streaming client lives in the \<open>api\<close> module (the TypeScript after the
  separator of \<open>components/Sidebar.tsx\<close>). Each handler is embedded as a function from the
  component state before the event to the state after it. A JavaScript \<open>number\<close> is a
  \<open>real\<close> (no NaN: the readings come from JSON, which has none), \<open>null\<close> and
  \<open>undefined\<close> are \<open>None\<close>, a timestamp of \<open>Date.now()\<close> is an \<open>int\<close>.
\<close>

type_synonym js_number = real

datatype group = Control | Intervention

datatype session = Session1 | Session2

record StudySettings =
  participantId :: string
  studyGroup :: group
  session :: session
  taskStartedAt :: "int option"
  taskEndedAt :: "int option"

record PromptMetric =
  ts :: int
  prompt_text :: string
  words :: nat
  chars :: nat

record InferenceMetrics =
  inference_time_ms :: js_number
  energy_wh :: js_number

datatype role = User | Bot

text \<open>
  A transcript message. \<open>ChatPane\<close> and \<open>App\<close> build objects with \<open>role\<close> and \<open>text\<close> only;
  the \<open>ChatHistory\<close> component that renders them reads an optional \<open>metrics\<close> property
  (\<open>m.role === "bot" && m.metrics\<close>). A property that an object does not have reads as
  \<open>undefined\<close>, here \<open>None\<close>.
\<close>

record Msg =
  role :: role
  msg_text :: string
  metrics :: "InferenceMetrics option"

text \<open>The payload of one push of the power stream; a field may be missing or null.\<close>

record EnergySummary =
  latest_prompt_Wh :: "js_number option"
  session_total_Wh :: "js_number option"
  today_total_Wh :: "js_number option"

text \<open>The \<open>energy\<close> object and the \<open>session\<close> object of a saved study bundle.\<close>

record BundleEnergy =
  be_latestPromptWh :: "js_number option"
  be_sessionTotalWh :: "js_number option"
  be_todayTotalWh :: "js_number option"
  be_session1TotalWh :: "js_number option"

record BundleSession =
  bs_participantId :: string
  bs_group :: group
  bs_session :: session
  bs_taskStartedAt :: "int option"
  bs_taskEndedAt :: "int option"
  bs_energy :: BundleEnergy

record StudyBundle =
  bundle_name :: string
  bundle_history :: "Msg list"
  bundle_metrics :: "PromptMetric list"
  bundle_session :: BundleSession

text \<open>
  The state of \<open>App\<close>: one field per \<open>useState\<close>/\<open>useRef\<close> hook the handlers below touch.
  \<open>localStorage\<close> holds the entries under the keys \<open>ai4all.study.s1TotalWh.<participant>\<close>:
  the code stores \<open>String(x)\<close> and reads it back with \<open>Number(raw)\<close>; the stored string is
  represented by the number it denotes (\<open>Number(String(x))\<close> is \<open>x\<close> for every JavaScript
  number but NaN, and \<open>String(x)\<close> is never empty, so the test \<open>raw ? ... : null\<close>
  succeeds exactly when the key is present). \<open>savedBundles\<close> and \<open>resetRequests\<close> record the
  calls of \<open>saveStudySession\<close> and \<open>resetChatSession\<close>, in order.
\<close>

record App =
  kwhUsed :: js_number
  lastPromptEnergyPct :: js_number
  totalEnergyPct :: js_number
  litresWater :: js_number
  latestPromptWh :: "js_number option"
  sessionTotalWh :: "js_number option"
  todayTotalWh :: "js_number option"
  promptWhHistory :: "js_number list"
  lastPromptWhRef :: "js_number option"
  chatKey :: nat
  currentModel :: "string option"
  study :: StudySettings
  promptMetrics :: "PromptMetric list"
  s1TotalWh :: "js_number option"
  messages :: "Msg list"
  localStorage :: "string \<rightharpoonup> js_number"
  savedBundles :: "StudyBundle list"
  resetRequests :: "string list"

section \<open>JavaScript operators\<close>

text \<open>\<open>v ?? d\<close>: the default replaces only null and undefined.\<close>

definition nullish :: "'a option \<Rightarrow> 'a \<Rightarrow> 'a" where
  "nullish v d = (case v of None \<Rightarrow> d | Some x \<Rightarrow> x)"

text \<open>Truthiness of \<open>string | null | undefined\<close> and of \<open>number | null | undefined\<close>.\<close>

definition truthy_str :: "string option \<Rightarrow> bool" where
  "truthy_str v = (case v of None \<Rightarrow> False | Some s \<Rightarrow> s \<noteq> [])"

definition truthy_num :: "int option \<Rightarrow> bool" where
  "truthy_num v = (case v of None \<Rightarrow> False | Some n \<Rightarrow> n \<noteq> 0)"

text \<open>\<open>a || b\<close> on optional strings: \<open>a\<close> when it is truthy, else \<open>b\<close> as it is.\<close>

definition js_or :: "string option \<Rightarrow> string option \<Rightarrow> string option" where
  "js_or a b = (if truthy_str a then a else b)"

section \<open>Energy telemetry monitor\<close>

text \<open>
  The updater passed to \<open>setPromptWhHistory\<close>, with the ref \<open>lastPromptWhRef\<close> it reads and
  writes: the pair is (window, last-seen reading).
  \<^verbatim>\<open>
  const prevSeen = lastPromptWhRef.current;
  if (latestWh > 0 && latestWh !== prevSeen) {
    const next = [...prev, latestWh];
    if (next.length > 2) next.shift();
    lastPromptWhRef.current = latestWh;
    return next;
  }
  lastPromptWhRef.current = latestWh;
  return prev;
  \<close>
\<close>

definition admit :: "js_number \<Rightarrow> js_number list \<times> js_number option
    \<Rightarrow> js_number list \<times> js_number option" where
  "admit latestWh st =
     (case st of (prev, prevSeen) \<Rightarrow>
        if 0 < latestWh \<and> Some latestWh \<noteq> prevSeen then
          (let next = prev @ [latestWh]
           in (if 2 < length next then tl next else next, Some latestWh))
        else (prev, Some latestWh))"

text \<open>The callback \<open>App\<close> hands to \<open>streamPower\<close>, run once for each push.\<close>

definition onPowerUpdate :: "EnergySummary \<Rightarrow> App \<Rightarrow> App" where
  "onPowerUpdate s a =
     (let latestWh = nullish (latest_prompt_Wh s) 0;
          sessionWh = nullish (session_total_Wh s) 0;
          todayWh = nullish (today_total_Wh s) 0;
          hs = admit latestWh (promptWhHistory a, lastPromptWhRef a)
      in a\<lparr> promptWhHistory := fst hs,
             lastPromptWhRef := snd hs,
             latestPromptWh := Some latestWh,
             sessionTotalWh := Some sessionWh,
             todayTotalWh := Some todayWh,
             kwhUsed := todayWh / 1000,
             lastPromptEnergyPct := min 100 ((latestWh / 1.0) * 100),
             totalEnergyPct := min 100 ((sessionWh / 10.0) * 100),
             litresWater := 0 \<rparr>)"

text \<open>A sequence of pushes, processed in arrival order.\<close>

definition pushes :: "EnergySummary list \<Rightarrow> App \<Rightarrow> App" where
  "pushes ps a = foldl (\<lambda>b s. onPowerUpdate s b) a ps"

text \<open>
  \<open>last2AvgWh\<close>: \<open>promptWhHistory.reduce((sum, v) => sum + v, 0) / promptWhHistory.length\<close>,
  null on the empty window.
\<close>

definition last2AvgWh :: "App \<Rightarrow> js_number option" where
  "last2AvgWh a =
     (if 0 < length (promptWhHistory a)
      then Some (foldl (\<lambda>sum v. sum + v) 0 (promptWhHistory a) / real (length (promptWhHistory a)))
      else None)"

text \<open>A push that carries only a latest-prompt reading.\<close>

definition reading :: "js_number \<Rightarrow> EnergySummary" where
  "reading x = \<lparr> latest_prompt_Wh = Some x, session_total_Wh = None, today_total_Wh = None \<rparr>"

section \<open>Study session state machine\<close>

text \<open>
  What \<open>loadPersistedStudySettings\<close> returns: the object stored under
  \<open>ai4all.study.settings\<close>, a partial \<open>StudySettings\<close>, or null.
\<close>

record PersistedSettings =
  persistedParticipantId :: "string option"
  persistedGroup :: "group option"
  persistedSession :: "session option"

text \<open>\<open>pid || "anon"\<close>\<close>

definition orAnon :: "string \<Rightarrow> string" where
  "orAnon pid = (if pid \<noteq> [] then pid else ''anon'')"

text \<open>The state of \<open>App\<close> when it mounts, from the persisted settings and the storage.\<close>

definition initialApp :: "PersistedSettings option \<Rightarrow> (string \<rightharpoonup> js_number) \<Rightarrow> App" where
  "initialApp persisted ls =
     (let pid = (case persisted of None \<Rightarrow> None | Some p \<Rightarrow> persistedParticipantId p);
          grp = (case persisted of None \<Rightarrow> None | Some p \<Rightarrow> persistedGroup p);
          ses = (case persisted of None \<Rightarrow> None | Some p \<Rightarrow> persistedSession p)
      in \<lparr> kwhUsed = 0, lastPromptEnergyPct = 0, totalEnergyPct = 0, litresWater = 0,
           latestPromptWh = None, sessionTotalWh = None, todayTotalWh = None,
           promptWhHistory = [], lastPromptWhRef = None,
           chatKey = 0, currentModel = None,
           study = \<lparr> participantId = nullish (js_or pid None) [],
                     studyGroup = nullish grp Control,
                     session = nullish ses Session1,
                     taskStartedAt = None, taskEndedAt = None \<rparr>,
           promptMetrics = [],
           s1TotalWh = ls (''ai4all.study.s1TotalWh.'' @ orAnon (nullish pid [])),
           messages = [],
           localStorage = ls, savedBundles = [], resetRequests = [] \<rparr>)"

text \<open>\<open>String.prototype.trim\<close>, on the ASCII white space.\<close>

definition is_space :: "char \<Rightarrow> bool" where
  "is_space c = (c = CHR '' '' \<or> c = CHR 0x09 \<or> c = CHR 0x0A \<or> c = CHR 0x0B
                 \<or> c = CHR 0x0C \<or> c = CHR 0x0D)"

definition js_trim :: "string \<Rightarrow> string" where
  "js_trim s = rev (dropWhile is_space (rev (dropWhile is_space s)))"

fun session_digit :: "session \<Rightarrow> string" where
  "session_digit Session1 = ''1''"
| "session_digit Session2 = ''2''"

text \<open>
  \<open>handleStudyChange\<close>: \<open>next\<close> is \<open>{...settings, participantId, group, session}\<close>, built by
  \<open>StudyControls\<close> from the settings it was rendered with, so it carries all five fields
  and \<open>{...s, ...next}\<close> is \<open>next\<close>. The reference total is looked up only for a new,
  non-empty participant id.
\<close>

definition handleStudyChange :: "StudySettings \<Rightarrow> App \<Rightarrow> App" where
  "handleStudyChange next a =
     (let a1 = a\<lparr> study := next \<rparr>
      in if participantId next \<noteq> [] \<and> participantId next \<noteq> participantId (study a)
         then a1\<lparr> s1TotalWh := localStorage a (''ai4all.study.s1TotalWh.'' @ participantId next) \<rparr>
         else a1)"

definition handleStartTask :: "int \<Rightarrow> App \<Rightarrow> App" where
  "handleStartTask now a =
     a\<lparr> study := (study a)\<lparr> taskStartedAt := Some now, taskEndedAt := None \<rparr>,
        promptMetrics := [] \<rparr>"

text \<open>
  \<open>handleEndTask\<close>. The bundle is built from the values the handler closed over: the study
  settings and the session-1 reference as they were before this call.
\<close>

definition studyBundle :: "int \<Rightarrow> App \<Rightarrow> StudyBundle" where
  "studyBundle endedAt a =
     \<lparr> bundle_name = js_trim (orAnon (participantId (study a))) @ ''_s'' @ session_digit (session (study a)),
       bundle_history = messages a,
       bundle_metrics = promptMetrics a,
       bundle_session =
         \<lparr> bs_participantId = participantId (study a),
           bs_group = studyGroup (study a),
           bs_session = session (study a),
           bs_taskStartedAt = taskStartedAt (study a),
           bs_taskEndedAt = Some endedAt,
           bs_energy = \<lparr> be_latestPromptWh = latestPromptWh a,
                         be_sessionTotalWh = sessionTotalWh a,
                         be_todayTotalWh = todayTotalWh a,
                         be_session1TotalWh = s1TotalWh a \<rparr> \<rparr> \<rparr>"

definition handleEndTask :: "int \<Rightarrow> App \<Rightarrow> App" where
  "handleEndTask now a =
     (let endedAt = now;
          a1 = a\<lparr> study := (study a)\<lparr> taskEndedAt := Some endedAt \<rparr> \<rparr>;
          a2 = (case sessionTotalWh a of
                  None \<Rightarrow> a1
                | Some wh \<Rightarrow>
                    if session (study a) = Session1
                    then a1\<lparr> localStorage :=
                               (localStorage a1)(''ai4all.study.s1TotalWh.'' @ orAnon (participantId (study a)) \<mapsto> wh),
                             s1TotalWh := Some wh \<rparr>
                    else a1)
      in a2\<lparr> savedBundles := savedBundles a2 @ [studyBundle endedAt a] \<rparr>)"

text \<open>
  \<open>handleResetAll\<close>. The request to the backend is sent when a model is known; whether it
  succeeds or throws (the \<open>catch\<close> only logs), the local reset follows.
\<close>

definition greeting :: Msg where
  "greeting = \<lparr> role = Bot, msg_text = ''Hi! Ask me anything.'', metrics = None \<rparr>"

definition handleResetAll :: "App \<Rightarrow> App" where
  "handleResetAll a =
     (let a1 = (if truthy_str (currentModel a)
                then a\<lparr> resetRequests := resetRequests a @ [nullish (currentModel a) []] \<rparr>
                else a)
      in a1\<lparr> study := (study a1)\<lparr> taskStartedAt := None, taskEndedAt := None \<rparr>,
             promptMetrics := [],
             messages := [greeting],
             latestPromptWh := None,
             sessionTotalWh := None,
             todayTotalWh := None,
             promptWhHistory := [],
             lastPromptWhRef := None,
             kwhUsed := 0,
             lastPromptEnergyPct := 0,
             totalEnergyPct := 0,
             litresWater := 0,
             chatKey := chatKey a1 + 1 \<rparr>)"

text \<open>
  The buttons of \<open>StudyControls\<close>: \<open>running = !!settings.taskStartedAt && !settings.taskEndedAt\<close>;
  Start and Reset are disabled while running, End is disabled unless running. A disabled
  button does not call its handler.
\<close>

definition running :: "StudySettings \<Rightarrow> bool" where
  "running st = (truthy_num (taskStartedAt st) \<and> \<not> truthy_num (taskEndedAt st))"

definition startButton :: "int \<Rightarrow> App \<Rightarrow> App" where
  "startButton now a = (if running (study a) then a else handleStartTask now a)"

definition endButton :: "int \<Rightarrow> App \<Rightarrow> App" where
  "endButton now a = (if \<not> running (study a) then a else handleEndTask now a)"

definition resetButton :: "App \<Rightarrow> App" where
  "resetButton a = (if running (study a) then a else handleResetAll a)"

text \<open>\<open>onUserPrompt\<close> as \<open>App\<close> passes it to \<open>ChatPane\<close>: the metric is appended.\<close>

definition onUserPrompt :: "PromptMetric \<Rightarrow> App \<Rightarrow> App" where
  "onUserPrompt m a = a\<lparr> promptMetrics := promptMetrics a @ [m] \<rparr>"

text \<open>
  What the sidebar and the study controls show as the session-1 total:
  \<open>session === 2 && typeof session1TotalWh === "number"\<close>.
\<close>

definition session1Reference :: "App \<Rightarrow> js_number option" where
  "session1Reference a = (if session (study a) = Session2 then s1TotalWh a else None)"

section \<open>Mode resolution\<close>

datatype ModeKey = Chat | Vibe_coding | Image | Web

record ModeInfo =
  mode_default :: string
  installed :: bool
  fast :: "string option"
  thinking :: "string option"

type_synonym ModeDefaults = "ModeKey \<rightharpoonup> ModeInfo"

datatype ThinkingMode = Fast | Deep

text \<open>\<open>modeOverrides.chat || modeDefaults?.chat?.default\<close>\<close>

definition chatModeModel :: "(ModeKey \<rightharpoonup> string) \<Rightarrow> ModeDefaults option \<Rightarrow> string option" where
  "chatModeModel modeOverrides modeDefaults =
     js_or (modeOverrides Chat)
           (case modeDefaults of
              None \<Rightarrow> None
            | Some d \<Rightarrow> (case d Chat of None \<Rightarrow> None | Some info \<Rightarrow> Some (mode_default info)))"

record ChatPaneProps =
  model :: "string option"
  fastModel :: "string option"
  deepModel :: "string option"

text \<open>The props \<open>App\<close> renders \<open>ChatPane\<close> with: each is \<open>value || undefined\<close>.\<close>

definition chatPaneProps :: "string option \<Rightarrow> string option \<Rightarrow> (ModeKey \<rightharpoonup> string)
    \<Rightarrow> ModeDefaults option \<Rightarrow> ChatPaneProps" where
  "chatPaneProps fastPreset deepPreset modeOverrides modeDefaults =
     \<lparr> model = js_or (chatModeModel modeOverrides modeDefaults) None,
       fastModel = js_or fastPreset None,
       deepModel = js_or deepPreset None \<rparr>"

text \<open>
  \<^verbatim>\<open>
  const activeModel = thinkingMode === "deep"
      ? (deepModel || model)
      : (fastModel || model);
  \<close>
\<close>

definition activeModel :: "ChatPaneProps \<Rightarrow> ThinkingMode \<Rightarrow> string option" where
  "activeModel props thinkingMode =
     (if thinkingMode = Deep then js_or (deepModel props) (model props)
      else js_or (fastModel props) (model props))"

section \<open>Streaming response consumer\<close>

text \<open>
  \<open>streamChat\<close> reads the response body chunk by chunk, splits each chunk at blank lines
  and handles every piece on its own. A piece that does not start with \<open>data:\<close> is skipped;
  the rest of a data line is parsed as JSON, and \<open>JSON.parse\<close> throws on text that is not
  JSON. A parsed payload is read through its properties \<open>error\<close>, \<open>delta\<close>, \<open>done\<close>,
  \<open>inference_time_ms\<close> and \<open>energy_wh\<close>, any of which may be missing.
\<close>

record Payload =
  payload_error :: "string option"
  payload_delta :: "string option"
  payload_done :: bool
  payload_inference_time_ms :: "js_number option"
  payload_energy_wh :: "js_number option"

datatype sse_line = NotData | Malformed | Data Payload

text \<open>One \<open>reader.read()\<close>: a chunk, or a rejection. The list of reads ends with \<open>done\<close>.\<close>

datatype read_result = Chunk "sse_line list" | ReadFailed

text \<open>The outcome of the \<open>fetch\<close>: rejected, or a body that delivers the reads and closes.\<close>

datatype response = FetchFailed | Body "read_result list"

datatype stream_error = ErrorFrame string | ParseError | TransportError

text \<open>
  The body of the \<open>for\<close> loop over the pieces of one chunk. \<open>st\<close> is the state the callbacks
  act on; what the callbacks did before an error stays done.
  \<^verbatim>\<open>
  if (!line.startsWith("data:")) continue;
  const payload = JSON.parse(line.slice(5).trim());
  if (payload.error) throw new Error(payload.error);
  if (payload.delta) onDelta(payload.delta);
  if (payload.done && payload.inference_time_ms !== undefined) {
    metrics = { inference_time_ms: payload.inference_time_ms,
                energy_wh: payload.energy_wh ?? 0 };
    onComplete?.(metrics);
  }
  \<close>
\<close>

fun streamLines :: "('s \<Rightarrow> string \<Rightarrow> 's) \<Rightarrow> ('s \<Rightarrow> InferenceMetrics \<Rightarrow> 's) option
    \<Rightarrow> sse_line list \<Rightarrow> 's \<times> InferenceMetrics option
    \<Rightarrow> 's \<times> (stream_error + InferenceMetrics option)" where
  "streamLines onDelta onComplete [] (st, m) = (st, Inr m)"
| "streamLines onDelta onComplete (NotData # ls) (st, m) =
     streamLines onDelta onComplete ls (st, m)"
| "streamLines onDelta onComplete (Malformed # ls) (st, m) = (st, Inl ParseError)"
| "streamLines onDelta onComplete (Data p # ls) (st, m) =
     (if truthy_str (payload_error p) then (st, Inl (ErrorFrame (nullish (payload_error p) [])))
      else
        let st1 = (if truthy_str (payload_delta p)
                   then onDelta st (nullish (payload_delta p) []) else st)
        in (case payload_inference_time_ms p of
              Some t \<Rightarrow>
                if payload_done p then
                  (let mt = \<lparr> inference_time_ms = t,
                                energy_wh = nullish (payload_energy_wh p) 0 \<rparr>
                   in streamLines onDelta onComplete ls
                        (case onComplete of None \<Rightarrow> st1 | Some f \<Rightarrow> f st1 mt, Some mt))
                else streamLines onDelta onComplete ls (st1, m)
            | None \<Rightarrow> streamLines onDelta onComplete ls (st1, m)))"

text \<open>The \<open>while (true)\<close> loop over the reads; it ends when the body closes.\<close>

fun streamReads :: "('s \<Rightarrow> string \<Rightarrow> 's) \<Rightarrow> ('s \<Rightarrow> InferenceMetrics \<Rightarrow> 's) option
    \<Rightarrow> read_result list \<Rightarrow> 's \<times> InferenceMetrics option
    \<Rightarrow> 's \<times> (stream_error + InferenceMetrics option)" where
  "streamReads onDelta onComplete [] (st, m) = (st, Inr m)"
| "streamReads onDelta onComplete (ReadFailed # rs) (st, m) = (st, Inl TransportError)"
| "streamReads onDelta onComplete (Chunk ls # rs) (st, m) =
     (case streamLines onDelta onComplete ls (st, m) of
        (st1, Inl e) \<Rightarrow> (st1, Inl e)
      | (st1, Inr m1) \<Rightarrow> streamReads onDelta onComplete rs (st1, m1))"

text \<open>
  \<open>streamChat\<close>: the promise resolves to the metrics of the last terminal frame
  (\<open>undefined\<close> when there was none) or rejects.
\<close>

definition streamChat :: "response \<Rightarrow> ('s \<Rightarrow> string \<Rightarrow> 's) \<Rightarrow> ('s \<Rightarrow> InferenceMetrics \<Rightarrow> 's) option
    \<Rightarrow> 's \<Rightarrow> 's \<times> (stream_error + InferenceMetrics option)" where
  "streamChat resp onDelta onComplete st =
     (case resp of
        FetchFailed \<Rightarrow> (st, Inl TransportError)
      | Body rs \<Rightarrow> streamReads onDelta onComplete rs (st, None))"

section \<open>Chat pane\<close>

record ChatRequest =
  request_prompt :: string
  request_model :: string
  request_thinkingMode :: ThinkingMode

text \<open>
  The state of \<open>ChatPane\<close> that \<open>handleSend\<close> touches, and what it sends out: the requests
  posted to the chat endpoint, the metrics given to \<open>onUserPrompt\<close> and the models given to
  \<open>onModelChange\<close>, in order.
\<close>

record ChatPane =
  paneMessages :: "Msg list"
  thinkingMode :: ThinkingMode
  isStreaming :: bool
  chatRequests :: "ChatRequest list"
  userPrompts :: "PromptMetric list"
  modelChanges :: "string list"

definition initialChatPane :: ChatPane where
  "initialChatPane =
     \<lparr> paneMessages = [greeting], thinkingMode = Fast, isStreaming = False,
       chatRequests = [], userPrompts = [], modelChanges = [] \<rparr>"

definition guidance :: Msg where
  "guidance =
     \<lparr> role = Bot,
       msg_text = ''I don'' @ [CHR 0x27] @ ''t know which chat model to use yet. '' @
                  ''Open the Models tab and set a Chat model (or override) first.'',
       metrics = None \<rparr>"

definition apology :: Msg where
  "apology =
     \<lparr> role = Bot,
       msg_text = CHR ''S'' # ''orry, something went wrong while generating a response.'',
       metrics = None \<rparr>"

text \<open>\<open>trimmed.split(/\s+/).length\<close> for a trimmed, non-empty prompt: its words.\<close>

fun count_words :: "bool \<Rightarrow> string \<Rightarrow> nat" where
  "count_words inWord [] = 0"
| "count_words inWord (c # cs) =
     (if is_space c then count_words False cs
      else (if inWord then 0 else 1) + count_words True cs)"

text \<open>
  The \<open>onDelta\<close> callback of \<open>handleSend\<close>, on the pair (accumulated text, transcript):
  the bot message at the end of the transcript is replaced by one with the whole text so far.
\<close>

definition withoutBotTail :: "Msg list \<Rightarrow> Msg list" where
  "withoutBotTail m = (if m \<noteq> [] \<and> role (last m) = Bot then butlast m else m)"

definition onDelta :: "string \<times> Msg list \<Rightarrow> string \<Rightarrow> string \<times> Msg list" where
  "onDelta st delta =
     (case st of (acc, m) \<Rightarrow>
        (acc @ delta,
         withoutBotTail m @ [\<lparr> role = Bot, msg_text = acc @ delta, metrics = None \<rparr>]))"

text \<open>
  \<open>handleSend\<close>. \<open>resp\<close> is what the backend answers if it is asked; the request is posted
  where the code calls \<open>streamChat\<close>, which gets \<open>onDelta\<close> and no \<open>onComplete\<close>, and whose
  result is awaited and dropped.
\<close>

definition handleSend :: "ChatPaneProps \<Rightarrow> int \<Rightarrow> string \<Rightarrow> response \<Rightarrow> ChatPane \<Rightarrow> ChatPane" where
  "handleSend props now txt resp p =
     (let trimmed = js_trim txt
      in if trimmed = [] then p
         else if \<not> truthy_str (activeModel props (thinkingMode p))
         then p\<lparr> paneMessages := paneMessages p @ [guidance] \<rparr>
         else
           let mdl = nullish (activeModel props (thinkingMode p)) [];
               p1 = p\<lparr> userPrompts := userPrompts p @
                           [\<lparr> ts = now, prompt_text = txt,
                              words = count_words False trimmed, chars = length txt \<rparr>],
                        modelChanges := modelChanges p @ [mdl],
                        paneMessages := paneMessages p @ [\<lparr> role = User, msg_text = txt, metrics = None \<rparr>],
                        isStreaming := True,
                        chatRequests := chatRequests p @
                           [\<lparr> request_prompt = txt, request_model = mdl,
                              request_thinkingMode = thinkingMode p \<rparr>] \<rparr>
           in (case streamChat resp onDelta None ([], paneMessages p1) of
                 ((acc, m), Inr res) \<Rightarrow> p1\<lparr> paneMessages := m, isStreaming := False \<rparr>
               | ((acc, m), Inl err) \<Rightarrow> p1\<lparr> paneMessages := m @ [apology], isStreaming := False \<rparr>))"

section \<open>Scenarios and auxiliary notions\<close>

text \<open>The app as it mounts in a browser with nothing stored.\<close>

definition freshApp :: App where
  "freshApp = initialApp None Map.empty"

text \<open>The settings \<open>StudyControls\<close> persisted for participant P1 in the given session.\<close>

definition p1Settings :: "session \<Rightarrow> PersistedSettings" where
  "p1Settings ses =
     \<lparr> persistedParticipantId = Some ''P1'', persistedGroup = Some Intervention,
       persistedSession = Some ses \<rparr>"

text \<open>
  Participant P1 in session 1: the app mounts with P1's settings, Start is pressed, and the
  monitor receives a push with a session total of 2.4 Wh.
\<close>

definition p1Running :: App where
  "p1Running =
     onPowerUpdate
       \<lparr> latest_prompt_Wh = Some 0.3, session_total_Wh = Some 2.4, today_total_Wh = Some 5 \<rparr>
       (startButton 1000 (initialApp (Some (p1Settings Session1)) Map.empty))"

text \<open>Several prompts in a row, as \<open>ChatPane\<close> reports them to \<open>App\<close>.\<close>

definition prompts :: "PromptMetric list \<Rightarrow> App \<Rightarrow> App" where
  "prompts ms a = foldl (\<lambda>b m. onUserPrompt m b) a ms"

text \<open>The latest-prompt readings of a sequence of pushes, as the callback reads them.\<close>

definition latestReadings :: "EnergySummary list \<Rightarrow> js_number list" where
  "latestReadings ps = map (\<lambda>s. nullish (latest_prompt_Wh s) 0) ps"

text \<open>The last two elements of a list (all of it when it is shorter).\<close>

definition last2 :: "'a list \<Rightarrow> 'a list" where
  "last2 xs = drop (length xs - 2) xs"

text \<open>
  The admission rule in the words of the specification: of a sequence of readings, those
  that are positive and differ from the reading seen last, which is the one just before.
\<close>

fun admitted :: "js_number option \<Rightarrow> js_number list \<Rightarrow> js_number list" where
  "admitted seen [] = []"
| "admitted seen (x # xs) =
     (if 0 < x \<and> Some x \<noteq> seen then [x] else []) @ admitted (Some x) xs"

text \<open>Data lines of the chat stream: one that carries text, and the terminal one.\<close>

definition deltaFrame :: "string \<Rightarrow> sse_line" where
  "deltaFrame d =
     Data \<lparr> payload_error = None, payload_delta = Some d, payload_done = False,
            payload_inference_time_ms = None, payload_energy_wh = None \<rparr>"

definition terminalFrame :: "js_number \<Rightarrow> js_number \<Rightarrow> sse_line" where
  "terminalFrame t e =
     Data \<lparr> payload_error = None, payload_delta = None, payload_done = True,
            payload_inference_time_ms = Some t, payload_energy_wh = Some e \<rparr>"

section \<open>The rolling window\<close>

lemma promptWhHistory_onPowerUpdate:
  "promptWhHistory (onPowerUpdate s a) =
     fst (admit (nullish (latest_prompt_Wh s) 0) (promptWhHistory a, lastPromptWhRef a))"
  by (simp add: onPowerUpdate_def Let_def)

lemma lastPromptWhRef_onPowerUpdate:
  "lastPromptWhRef (onPowerUpdate s a) = Some (nullish (latest_prompt_Wh s) 0)"
  by (simp add: onPowerUpdate_def Let_def admit_def)

lemma pushes_Nil: "pushes [] a = a"
  by (simp add: pushes_def)

lemma pushes_Cons: "pushes (s # ps) a = pushes ps (onPowerUpdate s a)"
  by (simp add: pushes_def)

lemma fresh_window: "promptWhHistory (initialApp persisted ls) = []"
  by (simp add: initialApp_def Let_def)

lemma fresh_ref: "lastPromptWhRef (initialApp persisted ls) = None"
  by (simp add: initialApp_def Let_def)

lemma last2_prefix: "2 \<le> length w \<Longrightarrow> last2 (zs @ w) = last2 w"
  by (simp add: last2_def)

lemma length_last2: "length (last2 xs) = min 2 (length xs)"
  by (simp add: last2_def)

lemma take_last2: "take (length xs - 2) xs @ last2 xs = xs"
  by (simp add: last2_def)

lemma last2_short: "length xs \<le> 2 \<Longrightarrow> last2 xs = xs"
  by (simp add: last2_def)

lemma last2_append: "last2 (last2 xs @ ys) = last2 (xs @ ys)"
proof (cases "length xs \<le> 2")
  case True
  then show ?thesis by (simp add: last2_def)
next
  case False
  then have "2 \<le> length (last2 xs @ ys)"
    by (simp add: length_last2)
  then have "last2 (take (length xs - 2) xs @ (last2 xs @ ys)) = last2 (last2 xs @ ys)"
    by (rule last2_prefix)
  moreover have "take (length xs - 2) xs @ (last2 xs @ ys) = xs @ ys"
    using take_last2[of xs] by (simp only: append_assoc[symmetric])
  ultimately show ?thesis by simp
qed

lemma short_list_cases:
  "length h \<le> 2 \<Longrightarrow> h = [] \<or> (\<exists>u. h = [u]) \<or> (\<exists>u v. h = [u, v])"
  by (cases h; cases "tl h"; cases "tl (tl h)"; auto)

text \<open>One step of the updater keeps the last two of the window extended by what it admits.\<close>

lemma fst_admit:
  "length h \<le> 2 \<Longrightarrow>
   fst (admit x (h, seen)) = last2 (h @ (if 0 < x \<and> Some x \<noteq> seen then [x] else []))"
  using short_list_cases[of h] by (auto simp: admit_def Let_def last2_def)

lemma length_fst_admit: "length h \<le> 2 \<Longrightarrow> length (fst (admit x (h, seen))) \<le> 2"
  by (auto simp: admit_def Let_def)

text \<open>The window after any pushes, from any state whose window is within capacity.\<close>

lemma window_after_pushes:
  "length (promptWhHistory a) \<le> 2 \<Longrightarrow>
   promptWhHistory (pushes ps a) =
     last2 (promptWhHistory a @ admitted (lastPromptWhRef a) (latestReadings ps))"
proof (induction ps arbitrary: a)
  case Nil
  then show ?case by (simp add: pushes_Nil last2_short latestReadings_def)
next
  case (Cons s ps)
  have len: "length (promptWhHistory (onPowerUpdate s a)) \<le> 2"
    using Cons.prems by (simp add: promptWhHistory_onPowerUpdate length_fst_admit)
  show ?case
    using Cons.IH[OF len] Cons.prems
    by (simp add: pushes_Cons promptWhHistory_onPowerUpdate lastPromptWhRef_onPowerUpdate
        fst_admit last2_append latestReadings_def)
qed

lemma filter_remdups_adj_Cons:
  "filter P (remdups_adj (x # xs)) =
     (if P x then [x] else []) @ filter P (tl (remdups_adj (x # xs)))"
proof -
  have "filter P (remdups_adj (x # xs)) = filter P (x # tl (remdups_adj (x # xs)))"
    by (simp only: remdups_adj_Cons_alt)
  also have "\<dots> = (if P x then [x] else []) @ filter P (tl (remdups_adj (x # xs)))"
    by (cases "P x") (simp_all only: filter.simps if_True if_False append_Cons append_Nil)
  finally show ?thesis .
qed

lemma admitted_Some:
  "admitted (Some y) xs = filter (\<lambda>v. 0 < v) (tl (remdups_adj (y # xs)))"
proof (induction xs arbitrary: y)
  case Nil
  show ?case by simp
next
  case (Cons x xs)
  show ?case
  proof (cases "x = y")
    case True
    then show ?thesis using Cons.IH[of y] by simp
  next
    case False
    then have "tl (remdups_adj (y # x # xs)) = remdups_adj (x # xs)"
      by simp
    then show ?thesis using False Cons.IH[of x]
      by (simp only: admitted.simps filter_remdups_adj_Cons[of _ x xs]) auto
  qed
qed

lemma admitted_None: "admitted None xs = filter (\<lambda>v. 0 < v) (remdups_adj xs)"
proof (cases xs)
  case Nil
  then show ?thesis by simp
next
  case (Cons x ys)
  show ?thesis unfolding Cons
    by (simp only: admitted.simps filter_remdups_adj_Cons[of _ x ys] admitted_Some) auto
qed

lemma distinct_adj_drop: "distinct_adj xs \<Longrightarrow> distinct_adj (drop n xs)"
  by (metis append_take_drop_id distinct_adj_appendD2)

text \<open>
  Claim C1, as stated: after every push the window has at most two entries and no entry
  equals its predecessor. The second half fails: the readings 0.3, 0, 0.3 leave the window
  at [0.3, 0.3], because the zero push moved the last-seen reading away from 0.3.
\<close>

theorem C1_window_repeats_after_zero:
  "promptWhHistory (pushes [reading 0.3, reading 0, reading 0.3] freshApp) = [0.3, 0.3]
   \<and> \<not> distinct_adj (promptWhHistory (pushes [reading 0.3, reading 0, reading 0.3] freshApp))"
  by (simp add: pushes_def onPowerUpdate_def admit_def reading_def nullish_def freshApp_def
      initialApp_def Let_def)

text \<open>
  Claim C1, amended: from a state with an empty window and no last-seen reading (the app
  as it mounts, or after a reset), after every sequence of pushes the window has at most
  two entries; it is the last two of the readings that were positive and different from
  the reading of the push just before, so every entry is positive; and it holds no two
  equal neighbours as long as every reading pushed was positive.
\<close>

theorem C1_window_last_two_admitted:
  assumes "promptWhHistory a = []" and "lastPromptWhRef a = None"
  shows "length (promptWhHistory (pushes ps a)) \<le> 2
    \<and> promptWhHistory (pushes ps a) =
        (let adm = filter (\<lambda>v. 0 < v) (remdups_adj (latestReadings ps))
         in drop (length adm - 2) adm)
    \<and> (\<forall>v \<in> set (promptWhHistory (pushes ps a)). 0 < v)
    \<and> ((\<forall>x \<in> set (latestReadings ps). 0 < x)
         \<longrightarrow> distinct_adj (promptWhHistory (pushes ps a)))"
proof -
  let ?adm = "filter (\<lambda>v. 0 < v) (remdups_adj (latestReadings ps))"
  have w: "promptWhHistory (pushes ps a) = drop (length ?adm - 2) ?adm"
    using window_after_pushes[of a ps] assms by (simp add: admitted_None last2_def)
  have l: "length (promptWhHistory (pushes ps a)) \<le> 2"
    unfolding w by simp
  have d: "distinct_adj (promptWhHistory (pushes ps a))"
    if pos: "\<forall>x \<in> set (latestReadings ps). 0 < x"
  proof -
    have "\<forall>v \<in> set (remdups_adj (latestReadings ps)). 0 < v"
      using pos by simp
    then have "?adm = remdups_adj (latestReadings ps)"
      by (simp only: filter_id_conv)
    then show ?thesis unfolding w by (simp add: distinct_adj_drop)
  qed
  have p: "\<forall>v \<in> set (promptWhHistory (pushes ps a)). 0 < v"
    unfolding w by (auto dest: in_set_dropD)
  have w': "promptWhHistory (pushes ps a) =
      (let adm = filter (\<lambda>v. 0 < v) (remdups_adj (latestReadings ps))
       in drop (length adm - 2) adm)"
    using w by (simp only: Let_def)
  have d': "(\<forall>x \<in> set (latestReadings ps). 0 < x)
      \<longrightarrow> distinct_adj (promptWhHistory (pushes ps a))"
    using d by blast
  show ?thesis
    by (rule conjI[OF l conjI[OF w' conjI[OF p d']]])
qed

theorem C1_window_last_two_admitted_witness:
  "promptWhHistory freshApp = [] \<and> lastPromptWhRef freshApp = None
   \<and> 0 < nullish (latest_prompt_Wh (reading 0.3)) 0
   \<and> 0 < nullish (latest_prompt_Wh (reading 0.5)) 0
   \<and> 0 < nullish (latest_prompt_Wh (reading 0.7)) 0
   \<and> length (promptWhHistory (pushes [reading 0.3, reading 0.5, reading 0.5, reading 0.7] freshApp)) \<le> 2
   \<and> promptWhHistory (pushes [reading 0.3, reading 0.5, reading 0.5, reading 0.7] freshApp) = [0.5, 0.7]
   \<and> distinct_adj (promptWhHistory (pushes [reading 0.3, reading 0.5, reading 0.5, reading 0.7] freshApp))"
proof -
  have h1: "promptWhHistory freshApp = []"
    by (simp add: freshApp_def fresh_window)
  have h2: "lastPromptWhRef freshApp = None"
    by (simp add: freshApp_def fresh_ref)
  show ?thesis
    using h1 h2
      C1_window_last_two_admitted[OF h1 h2, of "[reading 0.3, reading 0.5, reading 0.5, reading 0.7]"]
    by (simp add: latestReadings_def reading_def nullish_def)
qed

text \<open>
  Claim C8: a push whose latest-prompt reading is zero, or equal to the last-seen reading,
  leaves the window as it was, entries and order, and the last-seen reading becomes the
  pushed one.
\<close>

theorem C8_rejected_push_keeps_window:
  assumes "nullish (latest_prompt_Wh s) 0 = 0
           \<or> lastPromptWhRef a = Some (nullish (latest_prompt_Wh s) 0)"
  shows "promptWhHistory (onPowerUpdate s a) = promptWhHistory a
    \<and> lastPromptWhRef (onPowerUpdate s a) = Some (nullish (latest_prompt_Wh s) 0)"
  using assms by (auto simp add: onPowerUpdate_def Let_def admit_def)

theorem C8_rejected_push_keeps_window_witness:
  "promptWhHistory (onPowerUpdate (reading 0) (pushes [reading 0.3, reading 0.5] freshApp)) = [0.3, 0.5]
   \<and> lastPromptWhRef (onPowerUpdate (reading 0) (pushes [reading 0.3, reading 0.5] freshApp)) = Some 0
   \<and> promptWhHistory (onPowerUpdate (reading 0.5) (pushes [reading 0.3, reading 0.5] freshApp)) = [0.3, 0.5]
   \<and> lastPromptWhRef (onPowerUpdate (reading 0.5) (pushes [reading 0.3, reading 0.5] freshApp)) = Some 0.5"
proof -
  have z: "nullish (latest_prompt_Wh (reading 0)) 0 = 0"
    by (simp add: reading_def nullish_def)
  have r: "lastPromptWhRef (pushes [reading 0.3, reading 0.5] freshApp)
           = Some (nullish (latest_prompt_Wh (reading 0.5)) 0)"
    by (simp add: pushes_def lastPromptWhRef_onPowerUpdate)
  have w: "promptWhHistory (pushes [reading 0.3, reading 0.5] freshApp) = [0.3, 0.5]"
    by (simp add: pushes_def onPowerUpdate_def admit_def reading_def nullish_def freshApp_def
        initialApp_def Let_def)
  show ?thesis
    using C8_rejected_push_keeps_window[of "reading 0" "pushes [reading 0.3, reading 0.5] freshApp", OF disjI1, OF z]
      C8_rejected_push_keeps_window[of "reading 0.5" "pushes [reading 0.3, reading 0.5] freshApp", OF disjI2, OF r]
      w
    by (simp add: reading_def nullish_def)
qed

text \<open>
  Claim C9: from the empty window with no last-seen reading, as the app mounts, pushes with
  the latest-prompt readings 0.3, 0.3, 0.5 (whatever their other fields) give the window
  [0.3, 0.5] and the average 0.4.
\<close>

theorem C9_scenario_03_03_05:
  "promptWhHistory
     (pushes [\<lparr> latest_prompt_Wh = Some 0.3, session_total_Wh = s1, today_total_Wh = d1 \<rparr>,
              \<lparr> latest_prompt_Wh = Some 0.3, session_total_Wh = s2, today_total_Wh = d2 \<rparr>,
              \<lparr> latest_prompt_Wh = Some 0.5, session_total_Wh = s3, today_total_Wh = d3 \<rparr>]
        (initialApp persisted ls)) = [0.3, 0.5]
   \<and> last2AvgWh
     (pushes [\<lparr> latest_prompt_Wh = Some 0.3, session_total_Wh = s1, today_total_Wh = d1 \<rparr>,
              \<lparr> latest_prompt_Wh = Some 0.3, session_total_Wh = s2, today_total_Wh = d2 \<rparr>,
              \<lparr> latest_prompt_Wh = Some 0.5, session_total_Wh = s3, today_total_Wh = d3 \<rparr>]
        (initialApp persisted ls)) = Some 0.4"
  by (simp add: pushes_def onPowerUpdate_def admit_def nullish_def initialApp_def
      last2AvgWh_def Let_def)

section \<open>The legacy percentages\<close>

text \<open>
  Claim C4, as stated: both percentages lie in [0, 100] for every reading, negative ones
  included. The code caps them at 100 with \<open>Math.min\<close> and has no lower bound: a
  latest-prompt reading of -1 Wh gives -100.
\<close>

theorem C4_negative_reading_negative_percentage:
  "lastPromptEnergyPct (onPowerUpdate (reading (- 1)) freshApp) = - 100
   \<and> \<not> 0 \<le> lastPromptEnergyPct (onPowerUpdate (reading (- 1)) freshApp)"
  by (simp add: onPowerUpdate_def Let_def admit_def reading_def nullish_def freshApp_def
      initialApp_def)

text \<open>
  Claim C4, amended: on every push the percentages are the latest-prompt reading against
  1 Wh and the session total against 10 Wh, each capped at 100 from above only; they never
  exceed 100, and they lie in [0, 100] whenever the reading is not negative.
\<close>

theorem C4_percentages_capped_at_100:
  "lastPromptEnergyPct (onPowerUpdate s a) = min 100 (nullish (latest_prompt_Wh s) 0 / 1 * 100)
   \<and> totalEnergyPct (onPowerUpdate s a) = min 100 (nullish (session_total_Wh s) 0 / 10 * 100)
   \<and> lastPromptEnergyPct (onPowerUpdate s a) \<le> 100
   \<and> totalEnergyPct (onPowerUpdate s a) \<le> 100
   \<and> (0 \<le> nullish (latest_prompt_Wh s) 0 \<longrightarrow> 0 \<le> lastPromptEnergyPct (onPowerUpdate s a))
   \<and> (0 \<le> nullish (session_total_Wh s) 0 \<longrightarrow> 0 \<le> totalEnergyPct (onPowerUpdate s a))"
  by (simp add: onPowerUpdate_def Let_def)

theorem C4_percentages_capped_at_100_witness:
  "lastPromptEnergyPct
     (onPowerUpdate \<lparr> latest_prompt_Wh = Some 0.25, session_total_Wh = Some 12, today_total_Wh = Some 20 \<rparr>
        freshApp) = 25
   \<and> totalEnergyPct
     (onPowerUpdate \<lparr> latest_prompt_Wh = Some 0.25, session_total_Wh = Some 12, today_total_Wh = Some 20 \<rparr>
        freshApp) = 100
   \<and> 0 \<le> lastPromptEnergyPct
     (onPowerUpdate \<lparr> latest_prompt_Wh = Some 0.25, session_total_Wh = Some 12, today_total_Wh = Some 20 \<rparr>
        freshApp)
   \<and> 0 \<le> totalEnergyPct
     (onPowerUpdate \<lparr> latest_prompt_Wh = Some 0.25, session_total_Wh = Some 12, today_total_Wh = Some 20 \<rparr>
        freshApp)"
  using C4_percentages_capped_at_100
    [of "\<lparr> latest_prompt_Wh = Some 0.25, session_total_Wh = Some 12, today_total_Wh = Some 20 \<rparr>" freshApp]
  by (simp add: nullish_def)

section \<open>The study session\<close>

lemma study_handleResetAll:
  "study (handleResetAll a) = (study a)\<lparr> taskStartedAt := None, taskEndedAt := None \<rparr>"
  by (simp add: handleResetAll_def Let_def)

lemma promptMetrics_handleResetAll: "promptMetrics (handleResetAll a) = []"
  by (simp add: handleResetAll_def Let_def)

lemma study_handleEndTask:
  "study (handleEndTask t a) = (study a)\<lparr> taskEndedAt := Some t \<rparr>"
  by (simp add: handleEndTask_def Let_def split: option.splits)

lemma savedBundles_handleEndTask:
  "savedBundles (handleEndTask t a) = savedBundles a @ [studyBundle t a]"
  by (simp add: handleEndTask_def Let_def split: option.splits)

lemma running_handleStartTask: "0 < t \<Longrightarrow> running (study (handleStartTask t a))"
  by (simp add: handleStartTask_def running_def truthy_num_def)

lemma not_running_handleEndTask: "0 < t \<Longrightarrow> \<not> running (study (handleEndTask t a))"
  by (simp add: study_handleEndTask running_def truthy_num_def)

lemma not_running_initialApp: "\<not> running (study (initialApp persisted ls))"
  by (simp add: initialApp_def Let_def running_def truthy_num_def)

lemma study_prompts: "study (prompts ms a) = study a"
  by (induction ms arbitrary: a) (simp_all add: prompts_def onUserPrompt_def)

text \<open>
  Claim C2: with the clock of \<open>Date.now()\<close> after the epoch, pressing Start, then (after any
  number of prompts) End, then Reset leaves both task timestamps null and the list of
  prompt metrics empty, from every state; the handlers called in that order do so for
  every clock value. End is disabled unless a task is running, so that pressing it changes
  nothing (no timestamp, no stored snapshot, no bundle), as when the app has just mounted;
  pressing Start while no task runs makes one run, and End then sets the end time and
  saves one bundle.
\<close>

theorem C2_start_end_reset_idle:
  assumes "0 < t1" and "0 < t2"
  shows "taskStartedAt (study (resetButton (endButton t2 (prompts ms (startButton t1 a))))) = None
    \<and> taskEndedAt (study (resetButton (endButton t2 (prompts ms (startButton t1 a))))) = None
    \<and> promptMetrics (resetButton (endButton t2 (prompts ms (startButton t1 a)))) = []
    \<and> taskStartedAt (study (handleResetAll (handleEndTask u2 (handleStartTask u1 a)))) = None
    \<and> taskEndedAt (study (handleResetAll (handleEndTask u2 (handleStartTask u1 a)))) = None
    \<and> promptMetrics (handleResetAll (handleEndTask u2 (handleStartTask u1 a))) = []
    \<and> (\<not> running (study b) \<longrightarrow> endButton t b = b)
    \<and> endButton t (initialApp persisted ls) = initialApp persisted ls
    \<and> (\<not> running (study b) \<longrightarrow> running (study (startButton t1 b)))
    \<and> (running (study b) \<longrightarrow>
          taskEndedAt (study (endButton t2 b)) = Some t2
          \<and> savedBundles (endButton t2 b) = savedBundles b @ [studyBundle t2 b])"
proof -
  let ?s = "prompts ms (startButton t1 a)"
  have r: "running (study ?s)"
    using assms(1) by (simp add: study_prompts startButton_def running_handleStartTask)
  then have e: "endButton t2 ?s = handleEndTask t2 ?s"
    by (simp add: endButton_def)
  have "\<not> running (study (endButton t2 ?s))"
    unfolding e using assms(2) by (rule not_running_handleEndTask)
  then have "resetButton (endButton t2 ?s) = handleResetAll (endButton t2 ?s)"
    by (simp add: resetButton_def)
  then have buttons:
    "taskStartedAt (study (resetButton (endButton t2 ?s))) = None
     \<and> taskEndedAt (study (resetButton (endButton t2 ?s))) = None
     \<and> promptMetrics (resetButton (endButton t2 ?s)) = []"
    by (simp add: study_handleResetAll promptMetrics_handleResetAll)
  have handlers:
    "taskStartedAt (study (handleResetAll (handleEndTask u2 (handleStartTask u1 a)))) = None
     \<and> taskEndedAt (study (handleResetAll (handleEndTask u2 (handleStartTask u1 a)))) = None
     \<and> promptMetrics (handleResetAll (handleEndTask u2 (handleStartTask u1 a))) = []"
    by (simp add: study_handleResetAll promptMetrics_handleResetAll)
  have noop: "\<not> running (study b) \<longrightarrow> endButton t b = b"
    by (simp add: endButton_def)
  have mount: "endButton t (initialApp persisted ls) = initialApp persisted ls"
    using not_running_initialApp[of persisted ls] by (simp add: endButton_def)
  have start: "\<not> running (study b) \<longrightarrow> running (study (startButton t1 b))"
    using assms(1) by (simp add: startButton_def running_handleStartTask)
  have ends: "running (study b) \<longrightarrow>
      taskEndedAt (study (endButton t2 b)) = Some t2
      \<and> savedBundles (endButton t2 b) = savedBundles b @ [studyBundle t2 b]"
    by (simp add: endButton_def study_handleEndTask savedBundles_handleEndTask)
  from buttons handlers noop mount start ends show ?thesis
    by (simp only: simp_thms)
qed

theorem C2_start_end_reset_idle_witness:
  "(0::int) < 1000 \<and> (0::int) < 2000
   \<and> taskStartedAt (study (resetButton (endButton 2000 (prompts [] (startButton 1000 freshApp))))) = None
   \<and> taskEndedAt (study (resetButton (endButton 2000 (prompts [] (startButton 1000 freshApp))))) = None
   \<and> promptMetrics (resetButton (endButton 2000 (prompts [] (startButton 1000 freshApp)))) = []
   \<and> \<not> running (study freshApp)
   \<and> endButton 2000 freshApp = freshApp
   \<and> running (study (startButton 1000 freshApp))
   \<and> taskEndedAt (study (endButton 2000 (startButton 1000 freshApp))) = Some 2000
   \<and> length (savedBundles (endButton 2000 (startButton 1000 freshApp))) = 1"
proof -
  have h1: "(0::int) < 1000" and h2: "(0::int) < 2000"
    by simp_all
  have n: "\<not> running (study freshApp)"
    by (simp add: freshApp_def not_running_initialApp)
  have "running (study (startButton 1000 freshApp))"
    using C2_start_end_reset_idle[OF h1 h2, of _ _ _ _ freshApp] n by simp
  moreover from this have "taskEndedAt (study (endButton 2000 (startButton 1000 freshApp))) = Some 2000
      \<and> savedBundles (endButton 2000 (startButton 1000 freshApp))
          = savedBundles (startButton 1000 freshApp) @ [studyBundle 2000 (startButton 1000 freshApp)]"
    using C2_start_end_reset_idle[OF h1 h2, of _ _ _ _ "startButton 1000 freshApp"] by simp
  moreover have "savedBundles (startButton 1000 freshApp) = []"
    by (simp add: startButton_def handleStartTask_def freshApp_def initialApp_def Let_def)
  moreover have "endButton 2000 freshApp = freshApp"
    using C2_start_end_reset_idle[OF h1 h2, of _ _ _ _ freshApp 2000] n by simp
  ultimately show ?thesis
    using n C2_start_end_reset_idle[OF h1 h2, of "[]" freshApp] by simp
qed

text \<open>
  Claim C10: the reset handler changes the study settings in the two task timestamps only,
  which become null; participant id, group and session ordinal stay as they were, while the
  prompt metrics and the rolling window become empty, the energy readings null, the derived
  figures zero, and the transcript the single greeting of a new chat.
\<close>

theorem C10_reset_keeps_identity:
  "participantId (study (handleResetAll a)) = participantId (study a)
   \<and> studyGroup (study (handleResetAll a)) = studyGroup (study a)
   \<and> session (study (handleResetAll a)) = session (study a)
   \<and> taskStartedAt (study (handleResetAll a)) = None
   \<and> taskEndedAt (study (handleResetAll a)) = None
   \<and> study (handleResetAll a) = (study a)\<lparr> taskStartedAt := None, taskEndedAt := None \<rparr>
   \<and> promptMetrics (handleResetAll a) = []
   \<and> messages (handleResetAll a) = [greeting]
   \<and> latestPromptWh (handleResetAll a) = None
   \<and> sessionTotalWh (handleResetAll a) = None
   \<and> todayTotalWh (handleResetAll a) = None
   \<and> kwhUsed (handleResetAll a) = 0
   \<and> lastPromptEnergyPct (handleResetAll a) = 0
   \<and> totalEnergyPct (handleResetAll a) = 0
   \<and> litresWater (handleResetAll a) = 0
   \<and> promptWhHistory (handleResetAll a) = []
   \<and> lastPromptWhRef (handleResetAll a) = None"
  by (simp add: handleResetAll_def Let_def)

section \<open>The session-1 reference total\<close>

lemma localStorage_handleEndTask:
  "session (study a) = Session1 \<Longrightarrow> sessionTotalWh a = Some wh \<Longrightarrow>
   localStorage (handleEndTask t a) =
     (localStorage a)(''ai4all.study.s1TotalWh.'' @ orAnon (participantId (study a)) \<mapsto> wh)"
  by (simp add: handleEndTask_def Let_def)

lemma s1TotalWh_handleEndTask:
  "session (study a) = Session1 \<Longrightarrow> sessionTotalWh a = Some wh \<Longrightarrow>
   s1TotalWh (handleEndTask t a) = Some wh"
  by (simp add: handleEndTask_def Let_def)

lemma s1TotalWh_handleResetAll: "s1TotalWh (handleResetAll a) = s1TotalWh a"
  by (simp add: handleResetAll_def Let_def)

lemma s1TotalWh_initialApp:
  "persistedParticipantId p = Some pid \<Longrightarrow> pid \<noteq> [] \<Longrightarrow>
   s1TotalWh (initialApp (Some p) ls) = ls (''ai4all.study.s1TotalWh.'' @ pid)"
  by (simp add: initialApp_def Let_def nullish_def orAnon_def)

lemma session_initialApp:
  "persistedSession p = Some ses \<Longrightarrow> session (study (initialApp (Some p) ls)) = ses"
  by (simp add: initialApp_def Let_def nullish_def)

lemma s1TotalWh_handleStudyChange:
  "participantId next \<noteq> [] \<Longrightarrow> participantId next \<noteq> participantId (study b) \<Longrightarrow>
   s1TotalWh (handleStudyChange next b) =
     localStorage b (''ai4all.study.s1TotalWh.'' @ participantId next)"
  by (simp add: handleStudyChange_def Let_def)

lemma study_handleStudyChange: "study (handleStudyChange next b) = next"
  by (simp add: handleStudyChange_def Let_def)

text \<open>
  Claim C5: when session 1 of a participant with a non-empty id ends while the session
  total is a number, that number is stored under the key of that participant and becomes
  the reference total. A later session 2 of the same participant shows it with no new
  measurement: in the same tab after the session ordinal is switched (also across a reset,
  which nulls the session total), after a reload that finds the participant in the
  persisted settings, and when the participant id is entered again after another one.
  A participant with nothing stored gets no reference, and the entries of other
  participants are not touched.
\<close>

theorem C5_session1_total_recalled:
  assumes "session (study a) = Session1"
    and "sessionTotalWh a = Some wh"
    and "participantId (study a) = pid"
    and "pid \<noteq> []"
  shows "localStorage (handleEndTask t a) (''ai4all.study.s1TotalWh.'' @ pid) = Some wh
    \<and> (r \<noteq> pid \<longrightarrow>
          localStorage (handleEndTask t a) (''ai4all.study.s1TotalWh.'' @ r)
            = localStorage a (''ai4all.study.s1TotalWh.'' @ r))
    \<and> s1TotalWh (handleEndTask t a) = Some wh
    \<and> session1Reference
        (handleStudyChange ((study (handleEndTask t a))\<lparr> session := Session2 \<rparr>) (handleEndTask t a))
        = Some wh
    \<and> session1Reference
        (handleStudyChange ((study (handleResetAll (handleEndTask t a)))\<lparr> session := Session2 \<rparr>)
           (handleResetAll (handleEndTask t a)))
        = Some wh
    \<and> sessionTotalWh
        (handleStudyChange ((study (handleResetAll (handleEndTask t a)))\<lparr> session := Session2 \<rparr>)
           (handleResetAll (handleEndTask t a)))
        = None
    \<and> (persistedParticipantId p = Some pid \<and> persistedSession p = Some Session2 \<longrightarrow>
          session1Reference (initialApp (Some p) (localStorage (handleEndTask t a))) = Some wh
          \<and> sessionTotalWh (initialApp (Some p) (localStorage (handleEndTask t a))) = None)
    \<and> (localStorage b = localStorage (handleEndTask t a) \<and> participantId (study b) \<noteq> pid \<longrightarrow>
          session1Reference
            (handleStudyChange ((study b)\<lparr> participantId := pid, session := Session2 \<rparr>) b)
            = Some wh)
    \<and> (q \<noteq> [] \<and> q \<noteq> participantId (study b)
          \<and> localStorage b (''ai4all.study.s1TotalWh.'' @ q) = None \<longrightarrow>
          s1TotalWh (handleStudyChange ((study b)\<lparr> participantId := q \<rparr>) b) = None
          \<and> session1Reference (handleStudyChange ((study b)\<lparr> participantId := q \<rparr>) b) = None)"
proof -
  let ?e = "handleEndTask t a"
  let ?k = "''ai4all.study.s1TotalWh.'' @ pid"
  have stored: "localStorage ?e ?k = Some wh"
    using assms by (simp add: localStorage_handleEndTask orAnon_def)
  have scoped: "r \<noteq> pid \<longrightarrow>
      localStorage ?e (''ai4all.study.s1TotalWh.'' @ r)
        = localStorage a (''ai4all.study.s1TotalWh.'' @ r)"
    using assms by (simp add: localStorage_handleEndTask orAnon_def)
  have ref: "s1TotalWh ?e = Some wh"
    using assms by (simp add: s1TotalWh_handleEndTask)
  have same_tab: "session1Reference (handleStudyChange ((study ?e)\<lparr> session := Session2 \<rparr>) ?e) = Some wh"
    using ref by (simp add: session1Reference_def handleStudyChange_def Let_def)
  have after_reset:
    "session1Reference
       (handleStudyChange ((study (handleResetAll ?e))\<lparr> session := Session2 \<rparr>) (handleResetAll ?e))
       = Some wh"
    using ref by (simp add: session1Reference_def handleStudyChange_def Let_def s1TotalWh_handleResetAll)
  have no_measure:
    "sessionTotalWh
       (handleStudyChange ((study (handleResetAll ?e))\<lparr> session := Session2 \<rparr>) (handleResetAll ?e))
       = None"
    by (simp add: handleStudyChange_def Let_def handleResetAll_def)
  have reload: "persistedParticipantId p = Some pid \<and> persistedSession p = Some Session2 \<longrightarrow>
      session1Reference (initialApp (Some p) (localStorage ?e)) = Some wh
      \<and> sessionTotalWh (initialApp (Some p) (localStorage ?e)) = None"
  proof
    assume h: "persistedParticipantId p = Some pid \<and> persistedSession p = Some Session2"
    then have "s1TotalWh (initialApp (Some p) (localStorage ?e)) = Some wh"
      using assms(4) stored by (simp add: s1TotalWh_initialApp)
    moreover have "session (study (initialApp (Some p) (localStorage ?e))) = Session2"
      using h by (simp add: session_initialApp)
    moreover have "sessionTotalWh (initialApp (Some p) (localStorage ?e)) = None"
      by (simp add: initialApp_def Let_def)
    ultimately show "session1Reference (initialApp (Some p) (localStorage ?e)) = Some wh
      \<and> sessionTotalWh (initialApp (Some p) (localStorage ?e)) = None"
      by (simp add: session1Reference_def)
  qed
  have switch: "localStorage b = localStorage ?e \<and> participantId (study b) \<noteq> pid \<longrightarrow>
      session1Reference
        (handleStudyChange ((study b)\<lparr> participantId := pid, session := Session2 \<rparr>) b) = Some wh"
    using assms(4) stored
    by (auto simp add: session1Reference_def s1TotalWh_handleStudyChange study_handleStudyChange)
  have absent: "q \<noteq> [] \<and> q \<noteq> participantId (study b)
      \<and> localStorage b (''ai4all.study.s1TotalWh.'' @ q) = None \<longrightarrow>
      s1TotalWh (handleStudyChange ((study b)\<lparr> participantId := q \<rparr>) b) = None
      \<and> session1Reference (handleStudyChange ((study b)\<lparr> participantId := q \<rparr>) b) = None"
    by (auto simp add: session1Reference_def s1TotalWh_handleStudyChange)
  from stored scoped ref same_tab after_reset no_measure reload switch absent show ?thesis
    by blast
qed

lemma p1Running_study:
  "study p1Running =
     \<lparr> participantId = ''P1'', studyGroup = Intervention, session = Session1,
       taskStartedAt = Some 1000, taskEndedAt = None \<rparr>"
  by (simp add: p1Running_def onPowerUpdate_def startButton_def handleStartTask_def
      initialApp_def p1Settings_def running_def truthy_num_def truthy_str_def js_or_def
      nullish_def Let_def)

lemma p1Running_sessionTotalWh: "sessionTotalWh p1Running = Some 2.4"
  by (simp add: p1Running_def onPowerUpdate_def nullish_def Let_def)

theorem C5_session1_total_recalled_witness:
  "session (study p1Running) = Session1
   \<and> sessionTotalWh p1Running = Some 2.4
   \<and> participantId (study p1Running) = ''P1''
   \<and> endButton 2000 p1Running = handleEndTask 2000 p1Running
   \<and> localStorage (handleEndTask 2000 p1Running) ''ai4all.study.s1TotalWh.P1'' = Some 2.4
   \<and> s1TotalWh (handleEndTask 2000 p1Running) = Some 2.4
   \<and> session1Reference
       (initialApp (Some (p1Settings Session2)) (localStorage (handleEndTask 2000 p1Running)))
       = Some 2.4
   \<and> sessionTotalWh
       (initialApp (Some (p1Settings Session2)) (localStorage (handleEndTask 2000 p1Running)))
       = None
   \<and> session1Reference
       (handleStudyChange ((study freshApp)\<lparr> participantId := ''P1'', session := Session2 \<rparr>)
          (freshApp\<lparr> localStorage := localStorage (handleEndTask 2000 p1Running) \<rparr>))
       = Some 2.4
   \<and> session1Reference
       (handleStudyChange ((study freshApp)\<lparr> participantId := ''P2'', session := Session2 \<rparr>) freshApp)
       = None"
proof -
  have h1: "session (study p1Running) = Session1"
    by (simp add: p1Running_study)
  have h2: "sessionTotalWh p1Running = Some 2.4"
    by (rule p1Running_sessionTotalWh)
  have h3: "participantId (study p1Running) = ''P1''"
    by (simp add: p1Running_study)
  have h4: "''P1'' \<noteq> []"
    by simp
  have btn: "endButton 2000 p1Running = handleEndTask 2000 p1Running"
    by (simp add: endButton_def p1Running_study running_def truthy_num_def)
  have fresh: "study (freshApp\<lparr> localStorage := localStorage (handleEndTask 2000 p1Running) \<rparr>)
      = study freshApp"
    "participantId (study freshApp) = []"
    "localStorage freshApp ''ai4all.study.s1TotalWh.P2'' = None"
    by (simp_all add: freshApp_def initialApp_def js_or_def truthy_str_def nullish_def Let_def)
  have absent: "session1Reference
       (handleStudyChange ((study freshApp)\<lparr> participantId := ''P2'', session := Session2 \<rparr>) freshApp)
       = None"
    using fresh by (simp add: session1Reference_def s1TotalWh_handleStudyChange study_handleStudyChange)
  show ?thesis
    using h1 h2 h3 btn absent fresh
      C5_session1_total_recalled[OF h1 h2 h3 h4, where t = 2000 and p = "p1Settings Session2"
        and b = "freshApp\<lparr> localStorage := localStorage (handleEndTask 2000 p1Running) \<rparr>"]
    by (simp add: p1Settings_def)
qed

section \<open>The effective chat model\<close>

lemma chatRequests_handleSend:
  "js_trim txt \<noteq> [] \<Longrightarrow> truthy_str (activeModel props (thinkingMode p)) \<Longrightarrow>
   chatRequests (handleSend props now txt resp p) =
     chatRequests p @
       [\<lparr> request_prompt = txt,
          request_model = nullish (activeModel props (thinkingMode p)) [],
          request_thinkingMode = thinkingMode p \<rparr>]"
  by (simp add: handleSend_def Let_def split: prod.splits sum.splits)

text \<open>
  Claim C6: in the chat pane, with the profile "deep" and a deep preset set, the active
  model is the deep preset whatever the chat override and the backend default are, and it
  is the model of the request a submitted prompt posts; likewise the fast preset under the
  profile "fast"; with the preset of the profile unset, the active model is the generic
  one of the chat mode (override, else backend default, else none).
\<close>

theorem C6_preset_overrides_generic:
  "(tm = Deep \<and> truthy_str dp \<longrightarrow> activeModel (chatPaneProps fp dp ov df) tm = dp)
   \<and> (tm = Fast \<and> truthy_str fp \<longrightarrow> activeModel (chatPaneProps fp dp ov df) tm = fp)
   \<and> (tm = Deep \<and> \<not> truthy_str dp \<longrightarrow>
        activeModel (chatPaneProps fp dp ov df) tm = js_or (chatModeModel ov df) None)
   \<and> (tm = Fast \<and> \<not> truthy_str fp \<longrightarrow>
        activeModel (chatPaneProps fp dp ov df) tm = js_or (chatModeModel ov df) None)
   \<and> (thinkingMode p = Deep \<and> truthy_str (Some d) \<and> js_trim prompt \<noteq> [] \<longrightarrow>
        chatRequests (handleSend (chatPaneProps fp (Some d) ov df) now prompt resp p) =
          chatRequests p @
            [\<lparr> request_prompt = prompt, request_model = d, request_thinkingMode = Deep \<rparr>])
   \<and> (thinkingMode p = Fast \<and> truthy_str (Some f) \<and> js_trim prompt \<noteq> [] \<longrightarrow>
        chatRequests (handleSend (chatPaneProps (Some f) dp ov df) now prompt resp p) =
          chatRequests p @
            [\<lparr> request_prompt = prompt, request_model = f, request_thinkingMode = Fast \<rparr>])"
proof -
  have act: "(tm = Deep \<and> truthy_str dp \<longrightarrow> activeModel (chatPaneProps fp dp ov df) tm = dp)
   \<and> (tm = Fast \<and> truthy_str fp \<longrightarrow> activeModel (chatPaneProps fp dp ov df) tm = fp)
   \<and> (tm = Deep \<and> \<not> truthy_str dp \<longrightarrow>
        activeModel (chatPaneProps fp dp ov df) tm = js_or (chatModeModel ov df) None)
   \<and> (tm = Fast \<and> \<not> truthy_str fp \<longrightarrow>
        activeModel (chatPaneProps fp dp ov df) tm = js_or (chatModeModel ov df) None)"
    by (auto simp: activeModel_def chatPaneProps_def js_or_def truthy_str_def)
  have deep: "thinkingMode p = Deep \<and> truthy_str (Some d) \<and> js_trim prompt \<noteq> [] \<longrightarrow>
        chatRequests (handleSend (chatPaneProps fp (Some d) ov df) now prompt resp p) =
          chatRequests p @
            [\<lparr> request_prompt = prompt, request_model = d, request_thinkingMode = Deep \<rparr>]"
  proof
    assume h: "thinkingMode p = Deep \<and> truthy_str (Some d) \<and> js_trim prompt \<noteq> []"
    then have a: "activeModel (chatPaneProps fp (Some d) ov df) (thinkingMode p) = Some d"
      by (simp add: activeModel_def chatPaneProps_def js_or_def)
    show "chatRequests (handleSend (chatPaneProps fp (Some d) ov df) now prompt resp p) =
          chatRequests p @
            [\<lparr> request_prompt = prompt, request_model = d, request_thinkingMode = Deep \<rparr>]"
      using h a by (simp add: chatRequests_handleSend nullish_def)
  qed
  have fast: "thinkingMode p = Fast \<and> truthy_str (Some f) \<and> js_trim prompt \<noteq> [] \<longrightarrow>
        chatRequests (handleSend (chatPaneProps (Some f) dp ov df) now prompt resp p) =
          chatRequests p @
            [\<lparr> request_prompt = prompt, request_model = f, request_thinkingMode = Fast \<rparr>]"
  proof
    assume h: "thinkingMode p = Fast \<and> truthy_str (Some f) \<and> js_trim prompt \<noteq> []"
    then have a: "activeModel (chatPaneProps (Some f) dp ov df) (thinkingMode p) = Some f"
      by (simp add: activeModel_def chatPaneProps_def js_or_def)
    show "chatRequests (handleSend (chatPaneProps (Some f) dp ov df) now prompt resp p) =
          chatRequests p @
            [\<lparr> request_prompt = prompt, request_model = f, request_thinkingMode = Fast \<rparr>]"
      using h a by (simp add: chatRequests_handleSend nullish_def)
  qed
  from act deep fast show ?thesis
    by blast
qed

theorem C6_preset_overrides_generic_witness:
  "activeModel (chatPaneProps (Some ''fast-model'') (Some ''deep-model'')
       [Chat \<mapsto> ''override-model''] None) Deep = Some ''deep-model''
   \<and> activeModel (chatPaneProps (Some ''fast-model'') (Some ''deep-model'')
       [Chat \<mapsto> ''override-model''] None) Fast = Some ''fast-model''
   \<and> activeModel (chatPaneProps (Some ''fast-model'') None
       [Chat \<mapsto> ''override-model''] None) Deep = Some ''override-model''
   \<and> activeModel (chatPaneProps None (Some ''deep-model'')
       [Chat \<mapsto> ''override-model''] None) Fast = Some ''override-model''
   \<and> chatRequests
       (handleSend (chatPaneProps (Some ''fast-model'') (Some ''deep-model'')
            [Chat \<mapsto> ''override-model''] None)
          1000 ''hello'' FetchFailed (initialChatPane\<lparr> thinkingMode := Deep \<rparr>))
       = [\<lparr> request_prompt = ''hello'', request_model = ''deep-model'',
            request_thinkingMode = Deep \<rparr>]
   \<and> chatRequests
       (handleSend (chatPaneProps (Some ''fast-model'') (Some ''deep-model'')
            [Chat \<mapsto> ''override-model''] None)
          1000 ''hello'' FetchFailed initialChatPane)
       = [\<lparr> request_prompt = ''hello'', request_model = ''fast-model'',
            request_thinkingMode = Fast \<rparr>]"
proof -
  have t: "js_trim ''hello'' \<noteq> []"
    by (simp add: js_trim_def is_space_def)
  have g: "js_or (chatModeModel [Chat \<mapsto> ''override-model''] None) None = Some ''override-model''"
    by (simp add: chatModeModel_def js_or_def truthy_str_def)
  show ?thesis
    using t g
      C6_preset_overrides_generic[where tm = Deep and dp = "Some ''deep-model''"
        and fp = "Some ''fast-model''" and ov = "[Chat \<mapsto> ''override-model'']" and df = None
        and p = "initialChatPane\<lparr> thinkingMode := Deep \<rparr>" and d = "''deep-model''"
        and prompt = "''hello''" and now = 1000 and resp = FetchFailed and f = "''fast-model''"]
      C6_preset_overrides_generic[where tm = Fast and dp = "Some ''deep-model''"
        and fp = "Some ''fast-model''" and ov = "[Chat \<mapsto> ''override-model'']" and df = None
        and p = initialChatPane and d = "''deep-model''"
        and prompt = "''hello''" and now = 1000 and resp = FetchFailed and f = "''fast-model''"]
      C6_preset_overrides_generic[where tm = Deep and dp = None
        and fp = "Some ''fast-model''" and ov = "[Chat \<mapsto> ''override-model'']" and df = None]
      C6_preset_overrides_generic[where tm = Fast and dp = "Some ''deep-model''"
        and fp = None and ov = "[Chat \<mapsto> ''override-model'']" and df = None]
    by (simp add: truthy_str_def initialChatPane_def)
qed

section \<open>Submitting a prompt\<close>

text \<open>
  Claim C7: a prompt that is not blank, submitted while the chat pane has no active model,
  posts no request, reports no prompt metric and no model, and appends the guidance message,
  a bot message, to the transcript; nothing else of the pane changes.
\<close>

theorem C7_unresolved_model_guidance:
  assumes "js_trim txt \<noteq> []"
    and "\<not> truthy_str (activeModel props (thinkingMode p))"
  shows "handleSend props now txt resp p = p\<lparr> paneMessages := paneMessages p @ [guidance] \<rparr>
    \<and> chatRequests (handleSend props now txt resp p) = chatRequests p
    \<and> userPrompts (handleSend props now txt resp p) = userPrompts p
    \<and> modelChanges (handleSend props now txt resp p) = modelChanges p
    \<and> paneMessages (handleSend props now txt resp p) = paneMessages p @ [guidance]
    \<and> length (paneMessages (handleSend props now txt resp p)) = length (paneMessages p) + 1
    \<and> role guidance = Bot"
  using assms by (simp add: handleSend_def Let_def guidance_def)

theorem C7_unresolved_model_guidance_witness:
  "js_trim ''hello'' \<noteq> []
   \<and> \<not> truthy_str (activeModel (chatPaneProps None None Map.empty None) (thinkingMode initialChatPane))
   \<and> chatRequests
       (handleSend (chatPaneProps None None Map.empty None) 1000 ''hello''
          (Body [Chunk [deltaFrame ''Hi'', terminalFrame 120 0.02]]) initialChatPane) = []
   \<and> userPrompts
       (handleSend (chatPaneProps None None Map.empty None) 1000 ''hello''
          (Body [Chunk [deltaFrame ''Hi'', terminalFrame 120 0.02]]) initialChatPane) = []
   \<and> paneMessages
       (handleSend (chatPaneProps None None Map.empty None) 1000 ''hello''
          (Body [Chunk [deltaFrame ''Hi'', terminalFrame 120 0.02]]) initialChatPane)
       = [greeting, guidance]"
proof -
  have h1: "js_trim ''hello'' \<noteq> []"
    by (simp add: js_trim_def is_space_def)
  have h2: "\<not> truthy_str (activeModel (chatPaneProps None None Map.empty None)
      (thinkingMode initialChatPane))"
    by (simp add: activeModel_def chatPaneProps_def chatModeModel_def js_or_def truthy_str_def
        initialChatPane_def)
  show ?thesis
    using h1 h2
      C7_unresolved_model_guidance[OF h1 h2, of 1000
        "Body [Chunk [deltaFrame ''Hi'', terminalFrame 120 0.02]]"]
    by (simp add: initialChatPane_def)
qed

section \<open>The inference result of a stream\<close>

text \<open>Whatever the stream delivers, a property that every delta keeps holds at its end.\<close>

lemma streamLines_invariant:
  assumes "\<And>st d. P st \<Longrightarrow> P (f st d)" and "P st"
  shows "P (fst (streamLines f None ls (st, m)))"
  using assms(2)
proof (induction ls arbitrary: st m)
  case Nil
  then show ?case by simp
next
  case (Cons l ls)
  show ?case
  proof (cases l)
    case NotData
    then show ?thesis using Cons by simp
  next
    case Malformed
    then show ?thesis using Cons by simp
  next
    case (Data p)
    have ih: "\<And>s1 m1. P s1 \<Longrightarrow> P (fst (streamLines f None ls (s1, m1)))"
      by (rule Cons.IH)
    have moved: "\<And>d. P (f st d)"
      using Cons.prems by (rule assms(1))
    show ?thesis
      using Data Cons.prems ih moved by (simp add: Let_def split: option.splits)
  qed
qed

lemma streamReads_invariant:
  assumes "\<And>st d. P st \<Longrightarrow> P (f st d)" and "P st"
  shows "P (fst (streamReads f None rs (st, m)))"
  using assms(2)
proof (induction rs arbitrary: st m)
  case Nil
  then show ?case by simp
next
  case (Cons r rs)
  show ?case
  proof (cases r)
    case (Chunk ls)
    have "P (fst (streamLines f None ls (st, m)))"
      using assms(1) Cons.prems by (rule streamLines_invariant)
    then show ?thesis
      using Chunk Cons.IH by (auto split: prod.splits sum.splits)
  next
    case ReadFailed
    then show ?thesis using Cons.prems by simp
  qed
qed

lemma onDelta_no_metrics:
  "(\<forall>x \<in> set (snd st). metrics x = None) \<Longrightarrow> (\<forall>x \<in> set (snd (onDelta st d)). metrics x = None)"
  by (cases st) (auto simp: onDelta_def withoutBotTail_def dest: in_set_butlastD)

text \<open>No transcript message ever gets metrics from \<open>handleSend\<close>, whatever the stream.\<close>

lemma handleSend_no_metrics:
  assumes "\<forall>x \<in> set (paneMessages p). metrics x = None"
  shows "\<forall>x \<in> set (paneMessages (handleSend props now txt resp p)). metrics x = None"
proof -
  let ?P = "\<lambda>st :: string \<times> Msg list. \<forall>x \<in> set (snd st). metrics x = None"
  have step: "\<And>st d. ?P st \<Longrightarrow> ?P (onDelta st d)"
    by (rule onDelta_no_metrics)
  have "?P (fst (streamChat resp onDelta None
      ([], paneMessages p @ [\<lparr> role = User, msg_text = txt, metrics = None \<rparr>])))"
  proof (cases resp)
    case FetchFailed
    then show ?thesis using assms by (simp add: streamChat_def)
  next
    case (Body rs)
    have "?P ([], paneMessages p @ [\<lparr> role = User, msg_text = txt, metrics = None \<rparr>])"
      using assms by simp
    with step have "?P (fst (streamReads onDelta None rs
        (([], paneMessages p @ [\<lparr> role = User, msg_text = txt, metrics = None \<rparr>]), None)))"
      by (rule streamReads_invariant)
    then show ?thesis using Body by (simp add: streamChat_def)
  qed
  then show ?thesis
    using assms
    by (auto simp: handleSend_def Let_def guidance_def apology_def split: prod.splits sum.splits)
qed

text \<open>
  Claim C3 on the code: for the prompt "hello" with the model llama3 resolved, a stream that
  delivers the delta "Hi" and then the terminal frame with 120 ms and 0.02 Wh makes
  \<open>streamChat\<close> return exactly that inference result, yet the final bot message of the
  transcript, "Hi", carries no metrics: \<open>handleSend\<close> passes no completion callback and
  drops the returned value.
\<close>

theorem C3_result_not_attached:
  "snd (streamChat (Body [Chunk [deltaFrame ''Hi'', terminalFrame 120 0.02]]) onDelta None
          ([], [greeting, \<lparr> role = User, msg_text = ''hello'', metrics = None \<rparr>]))
     = Inr (Some \<lparr> inference_time_ms = 120, energy_wh = 0.02 \<rparr>)
   \<and> paneMessages
       (handleSend \<lparr> model = Some ''llama3'', fastModel = None, deepModel = None \<rparr> 1000 ''hello''
          (Body [Chunk [deltaFrame ''Hi'', terminalFrame 120 0.02]]) initialChatPane)
     = [greeting,
        \<lparr> role = User, msg_text = ''hello'', metrics = None \<rparr>,
        \<lparr> role = Bot, msg_text = ''Hi'', metrics = None \<rparr>]
   \<and> metrics (last (paneMessages
       (handleSend \<lparr> model = Some ''llama3'', fastModel = None, deepModel = None \<rparr> 1000 ''hello''
          (Body [Chunk [deltaFrame ''Hi'', terminalFrame 120 0.02]]) initialChatPane)))
     = None"
  by (simp add: handleSend_def streamChat_def deltaFrame_def terminalFrame_def nullish_def
      truthy_str_def js_trim_def is_space_def activeModel_def js_or_def initialChatPane_def
      onDelta_def withoutBotTail_def greeting_def Let_def)

end
